theory Spec2Isabelle
  imports Main "HOL-Library.Word" "HOL-Library.Signed_Division"
begin

section \<open>OIDC session coordination (src/server/auth/server/oidc.go)\<close>

text \<open>
  The development follows \<^verbatim>\<open>oidc.go\<close>: the token generator \<^verbatim>\<open>CryptoString\<close>, the
  callback endpoint \<^verbatim>\<open>handleOIDCExchange\<close> with its helper
  \<^verbatim>\<open>handleOIDCExchangeInternal\<close>, and the waiter \<^verbatim>\<open>OIDCStateToEmail\<close>.
  Everything the Go code takes from outside the file (the random source, the OIDC
  provider, the etcd collection and its watch, the backoff package) is a parameter or a
  small model stated next to its use.
\<close>

subsection \<open>Errors\<close>

text \<open>
  Go's \<^verbatim>\<open>error\<close> values. The first four are the package-level sentinels of
  \<^verbatim>\<open>oidc.go\<close> (lines 29-34), compared by identity in the retry callback. The others
  are the errors built or passed on inside the three functions: \<^verbatim>\<open>e.Err\<close> of a watch
  event, the wrapped unmarshalling error, the error of \<^verbatim>\<open>Provider.UserInfo\<close>, the three
  errors of \<^verbatim>\<open>handleOIDCExchangeInternal\<close>, the nonce mismatch built inside the
  transaction (with the two nonces it formats), and the error returned by
  \<^verbatim>\<open>col.NewSTM\<close>. A value made elsewhere is never identical to a sentinel, which the
  separate constructors express.
\<close>

datatype error =
    notConfigured
  | authFailed
  | watchFailed
  | tokenDeleted
  | WatchEventErr string
  | UnmarshalErr
  | UserInfoErr string
  | ExchangeErr string
  | MissingIDToken
  | VerifyErr string
  | NonceMismatch string string
  | EtcdErr string
  | ErrNotFound

text \<open>A Go panic: a slice length that \<^verbatim>\<open>make\<close> refuses and the failed entropy source
  in \<^verbatim>\<open>CryptoString\<close>, and an index out of range on a slice.\<close>

datatype panic = MakesliceLenOutOfRange | RandUnavailable | IndexOutOfRange

subsection \<open>CryptoString\<close>

text \<open>
  \<^verbatim>\<open>base64.RawURLEncoding\<close> is Go's standard library: the alphabet of RFC 4648,
  section 5, without padding. The encoder turns each group of three bytes into four
  characters, a final group of two bytes into three and a final single byte into two.
\<close>

definition encodeURL :: string where
  "encodeURL = ''ABCDEFGHIJKLMNOPQRSTUVWXYZabcdefghijklmnopqrstuvwxyz0123456789-_''"

definition enc6 :: "nat \<Rightarrow> char" where
  "enc6 v = encodeURL ! (v mod 64)"

fun EncodeToString :: "8 word list \<Rightarrow> string" where
  "EncodeToString (a # b # c # rest) =
     (let val = unat a * 65536 + unat b * 256 + unat c
      in enc6 (val div 262144) # enc6 (val div 4096) # enc6 (val div 64) # enc6 val
           # EncodeToString rest)"
| "EncodeToString [a, b] =
     (let val = unat a * 65536 + unat b * 256
      in [enc6 (val div 262144), enc6 (val div 4096), enc6 (val div 64)])"
| "EncodeToString [a] =
     (let val = unat a * 65536
      in [enc6 (val div 262144), enc6 (val div 4096)])"
| "EncodeToString [] = []"

text \<open>
  \<^verbatim>\<open>EncodedLen(n)\<close> of an encoding without padding is \<^verbatim>\<open>(n*8 + 5) / 6\<close> on Go's
  \<^verbatim>\<open>int\<close>, which has 64 bits here: the multiplication and the addition wrap around,
  and the division truncates towards zero.
\<close>

definition EncodedLen :: "64 word \<Rightarrow> 64 word" where
  "EncodedLen n = word_of_int (sint (n * 8 + 5) sdiv 6)"

text \<open>
  The loop of lines 89-92:
  \<^verbatim>\<open>for n >= base64.RawURLEncoding.EncodedLen(numBytes) { numBytes++ }\<close>,
  a signed comparison of two 64-bit integers. Nothing bounds the loop: where it does not
  end, the result is \<open>None\<close>.
\<close>

partial_function (option) numBytes_loop :: "64 word \<Rightarrow> 64 word \<Rightarrow> 64 word option" where
  "numBytes_loop n numBytes =
     (if sint n \<ge> sint (EncodedLen numBytes) then numBytes_loop n (numBytes + 1)
      else Some numBytes)"

text \<open>
  Lines 93-99. \<^verbatim>\<open>make([]byte, numBytes)\<close> panics when the length is negative or
  beyond what the runtime can allocate; that limit is the first argument.
  \<^verbatim>\<open>rand.Read(b)\<close> either fails, and \<^verbatim>\<open>CryptoString\<close> panics, or fills all of
  \<^verbatim>\<open>b\<close>: the entropy source is \<open>None\<close> when it is unavailable, and otherwise gives
  the byte written at each index. The result is \<open>None\<close> when the call never returns.
\<close>

definition CryptoString ::
  "nat \<Rightarrow> (nat \<Rightarrow> 8 word) option \<Rightarrow> 64 word \<Rightarrow> (panic + string) option" where
  "CryptoString maxAlloc rand_Read n =
     (case numBytes_loop n 0 of
        None \<Rightarrow> None
      | Some numBytes \<Rightarrow>
          Some (if sint numBytes < 0 \<or> int maxAlloc < sint numBytes
                then Inl MakesliceLenOutOfRange
                else case rand_Read of
                       None \<Rightarrow> Inl RandUnavailable
                     | Some src \<Rightarrow> Inr (EncodeToString (map src [0..<unat numBytes]))))"

text \<open>The number of characters that encode \<open>k\<close> bytes, as a natural number.\<close>

definition chars_for :: "nat \<Rightarrow> nat" where
  "chars_for k = (k * 8 + 5) div 6"

text \<open>The characters that RFC 3986 lets a URL carry without percent-encoding.\<close>

definition url_unreserved :: "char \<Rightarrow> bool" where
  "url_unreserved c =
     (c \<in> set ''ABCDEFGHIJKLMNOPQRSTUVWXYZ'' \<or> c \<in> set ''abcdefghijklmnopqrstuvwxyz''
      \<or> c \<in> set ''0123456789'' \<or> c \<in> set ''-._~'')"

definition zero_source :: "nat \<Rightarrow> 8 word" where
  "zero_source i = 0"

subsection \<open>Session records, the provider, the log and the HTTP response\<close>

text \<open>
  \<^verbatim>\<open>auth.SessionInfo\<close> is declared in \<^verbatim>\<open>src/client/auth\<close>; the three fields below are
  the ones \<^verbatim>\<open>oidc.go\<close> reads and writes. The collection \<^verbatim>\<open>States\<close> maps an OIDC state
  token to its record.
\<close>

record SessionInfo =
  Nonce :: string
  AccessToken :: string
  ConversionErr :: bool

type_synonym States = "string \<rightharpoonup> SessionInfo"

text \<open>
  The OIDC client is outside the repository. An \<^verbatim>\<open>oauth2.Token\<close> is its access token
  and the \<^verbatim>\<open>id_token\<close> extra field, \<open>None\<close> when \<^verbatim>\<open>tok.Extra("id_token").(string)\<close>
  is not ok. The provider is what the three functions ask of it:
  \<^verbatim>\<open>conf.Exchange\<close> on an authorization code, \<^verbatim>\<open>verifier.Verify\<close> on a raw ID token
  (giving \<^verbatim>\<open>idToken.Nonce\<close>) and \<^verbatim>\<open>Provider.UserInfo\<close> on an access token (giving
  \<^verbatim>\<open>userInfo.Email\<close>); \<open>Inl\<close> carries the library's error.
\<close>

record Token =
  Token_AccessToken :: string
  Token_id_token :: "string option"

record InternalOIDCProvider =
  Exchange :: "string \<Rightarrow> string + Token"
  Verify :: "string \<Rightarrow> string + string"
  UserInfo :: "string \<Rightarrow> string + string"

text \<open>
  A log line is its level, its format string and the arguments passed to it. The four
  format strings of the callback path are
  \<^item> \<open>MsgExchangeRequest\<close>: \<^verbatim>\<open>auth.OIDC.handleOIDCExchange { "state": %q }\<close>
  \<^item> \<open>MsgExchangeResult\<close>: \<^verbatim>\<open>auth.OIDC.handleOIDCExchange { "state": %q, "nonce": %q }\<close>
  \<^item> \<open>MsgCouldNotConvert\<close>: \<^verbatim>\<open>could not convert authorization code (OIDC state: %q) %v\<close>
  \<^item> \<open>MsgErrorStoring\<close>: \<^verbatim>\<open>error storing OIDC authorization code in etcd (OIDC state: %q): %v\<close>
\<close>

datatype log_level = Info | Error
datatype log_msg = MsgExchangeRequest | MsgExchangeResult | MsgCouldNotConvert | MsgErrorStoring
datatype log_arg = Str string | Err error
datatype log_entry = Log log_level log_msg "log_arg list"

definition logrus_Infof :: "log_entry list \<Rightarrow> log_msg \<Rightarrow> log_arg list \<Rightarrow> log_entry list" where
  "logrus_Infof sink msg args = sink @ [Log Info msg args]"

definition logrus_Errorf :: "log_entry list \<Rightarrow> log_msg \<Rightarrow> log_arg list \<Rightarrow> log_entry list" where
  "logrus_Errorf sink msg args = sink @ [Log Error msg args]"

text \<open>
  The response writer is the list of responses written so far. The bodies are the five
  messages of \<^verbatim>\<open>handleOIDCExchange\<close>; two of them format the OIDC state token.
  \<^verbatim>\<open>fmt.Fprintf\<close> on a fresh writer answers with status 200.
\<close>

datatype body =
    BodyNotConfigured
  | BodyInvalidRequest
  | BodyAuthFailed string
  | BodyTemporaryError string
  | BodyLoggedIn

datatype response = Response nat body

definition http_Error :: "response list \<Rightarrow> body \<Rightarrow> nat \<Rightarrow> response list" where
  "http_Error w b status = w @ [Response status b]"

definition fmt_Fprintf :: "response list \<Rightarrow> body \<Rightarrow> response list" where
  "fmt_Fprintf w b = w @ [Response 200 b]"

definition StatusBadRequest :: nat where "StatusBadRequest = 400"
definition StatusUnauthorized :: nat where "StatusUnauthorized = 401"
definition StatusConflict :: nat where "StatusConflict = 409"
definition StatusInternalServerError :: nat where "StatusInternalServerError = 500"

subsection \<open>handleOIDCExchangeInternal (lines 355-389)\<close>

text \<open>
  The result is the triple \<^verbatim>\<open>(nonce, accessToken, retErr)\<close> and the log sink. The
  deferred \<^verbatim>\<open>Infof\<close> runs on every return and formats the named result \<^verbatim>\<open>nonce\<close>.
\<close>

definition handleOIDCExchangeInternal ::
  "log_entry list \<Rightarrow> InternalOIDCProvider \<Rightarrow> string \<Rightarrow> string
     \<Rightarrow> (string \<times> string \<times> error option) \<times> log_entry list" where
  "handleOIDCExchangeInternal sink sp authCode state =
     (let sink1 = logrus_Infof sink MsgExchangeRequest [Str state];
          ret = (case Exchange sp authCode of
                   Inl m \<Rightarrow> ('''', '''', Some (ExchangeErr m))
                 | Inr tok \<Rightarrow>
                     (case Token_id_token tok of
                        None \<Rightarrow> ('''', '''', Some MissingIDToken)
                      | Some rawIDToken \<Rightarrow>
                          (case Verify sp rawIDToken of
                             Inl m \<Rightarrow> ('''', '''', Some (VerifyErr m))
                           | Inr idTokenNonce \<Rightarrow> (idTokenNonce, Token_AccessToken tok, None))))
      in (ret, logrus_Infof sink1 MsgExchangeResult [Str state, Str (fst ret)]))"

subsection \<open>The transaction\<close>

text \<open>
  Modelled from the spec: \<^verbatim>\<open>col.NewSTM\<close> and \<^verbatim>\<open>ReadWrite(stm).Update\<close> of
  \<^verbatim>\<open>src/server/pkg/collection\<close> are not among the sources. The spec's
  \<^verbatim>\<open>transactionalUpdate(token, mutator)\<close> opens a transaction, reads the current record,
  applies the mutator to compute the new record (the mutator may itself fail, aborting
  the transaction without side effects), and commits; it fails when the store is
  unavailable. Here the store either commits, or fails before the record is read, or
  fails at the commit after the mutator has run; a token with no record fails the read.
  The mutator is a Go closure: besides the record it may assign variables it captures,
  and those assignments stay whether or not the transaction commits. The captured
  variables are the third argument and are returned.
\<close>

datatype stm_outcome = Commits | FailsBeforeRead string | FailsAtCommit string

definition transactionalUpdate ::
  "stm_outcome \<Rightarrow> States \<Rightarrow> string
     \<Rightarrow> ('c \<Rightarrow> SessionInfo \<Rightarrow> error option \<times> 'c \<times> SessionInfo) \<Rightarrow> 'c
     \<Rightarrow> error option \<times> 'c \<times> States" where
  "transactionalUpdate stm states key mutator captured =
     (case stm of
        FailsBeforeRead m \<Rightarrow> (Some (EtcdErr m), captured, states)
      | _ \<Rightarrow>
        (case states key of
           None \<Rightarrow> (Some ErrNotFound, captured, states)
         | Some si \<Rightarrow>
             (case mutator captured si of
                (Some e, captured', si') \<Rightarrow> (Some e, captured', states)
              | (None, captured', si') \<Rightarrow>
                  (case stm of
                     FailsAtCommit m \<Rightarrow> (Some (EtcdErr m), captured', states)
                   | _ \<Rightarrow> (None, captured', states(key \<mapsto> si'))))))"

subsection \<open>handleOIDCExchange (lines 281-349)\<close>

text \<open>
  The closure passed to \<^verbatim>\<open>Update\<close> (lines 304-319). It captures \<^verbatim>\<open>nonce\<close>,
  \<^verbatim>\<open>accessToken\<close> and the variable \<^verbatim>\<open>conversionErr\<close>, which it may assign; it
  always returns \<^verbatim>\<open>nil\<close>.
\<close>

definition update_closure ::
  "string \<Rightarrow> string \<Rightarrow> error option \<Rightarrow> SessionInfo
     \<Rightarrow> error option \<times> error option \<times> SessionInfo" where
  "update_closure nonce accessToken conversionErr si =
     (let conversionErr1 =
            (if conversionErr = None \<and> nonce \<noteq> Nonce si
             then Some (NonceMismatch nonce (Nonce si)) else conversionErr);
          si1 = (if conversionErr1 = None then si\<lparr>AccessToken := accessToken\<rparr>
                 else si\<lparr>ConversionErr := True\<rparr>)
      in (None, conversionErr1, si1))"

record handler_out =
  responses :: "response list"
  logs :: "log_entry list"
  States_after :: States

text \<open>Lines 297-348: the exchange, the transaction, the one response, the two logs.\<close>

definition exchange_and_commit ::
  "InternalOIDCProvider \<Rightarrow> stm_outcome \<Rightarrow> States \<Rightarrow> string \<Rightarrow> string \<Rightarrow> handler_out" where
  "exchange_and_commit sp stm states code state =
     (case handleOIDCExchangeInternal [] sp code state of
        ((nonce, accessToken, conversionErr0), sink1) \<Rightarrow>
          (case transactionalUpdate stm states state
                  (update_closure nonce accessToken) conversionErr0 of
             (etcdErr, conversionErr, states1) \<Rightarrow>
               (let w = (if conversionErr \<noteq> None
                         then http_Error [] (BodyAuthFailed state) StatusUnauthorized
                         else if etcdErr \<noteq> None
                         then http_Error [] (BodyTemporaryError state) StatusInternalServerError
                         else fmt_Fprintf [] BodyLoggedIn);
                    sink2 = (case conversionErr of
                               Some e \<Rightarrow> logrus_Errorf sink1 MsgCouldNotConvert [Str state, Err e]
                             | None \<Rightarrow> sink1);
                    sink3 = (case etcdErr of
                               Some e \<Rightarrow> logrus_Errorf sink2 MsgErrorStoring [Str state, Err e]
                             | None \<Rightarrow> sink2)
                in \<lparr>responses = w, logs = sink3, States_after = states1\<rparr>)))"

text \<open>
  \<^verbatim>\<open>req.URL.Query()\<close> is a \<^verbatim>\<open>map[string][]string\<close>: a parameter that the request does
  not carry has no values, and indexing its first value panics. The handler takes the
  configured provider (\<^verbatim>\<open>a.getOIDCSP()\<close>, \<open>None\<close> for \<^verbatim>\<open>nil\<close>), how the store
  will behave, the collection and the query.
\<close>

type_synonym Values = "string \<Rightarrow> string list"

definition handleOIDCExchange ::
  "InternalOIDCProvider option \<Rightarrow> stm_outcome \<Rightarrow> States \<Rightarrow> Values \<Rightarrow> panic + handler_out" where
  "handleOIDCExchange getOIDCSP stm states query =
     (case getOIDCSP of
        None \<Rightarrow>
          Inr \<lparr>responses = http_Error [] BodyNotConfigured StatusConflict, logs = [],
                States_after = states\<rparr>
      | Some sp \<Rightarrow>
          (case query ''code'' of
             [] \<Rightarrow> Inl IndexOutOfRange
           | code # _ \<Rightarrow>
               (case query ''state'' of
                  [] \<Rightarrow> Inl IndexOutOfRange
                | state # _ \<Rightarrow>
                    if state = '''' \<or> code = ''''
                    then Inr \<lparr>responses = http_Error [] BodyInvalidRequest StatusBadRequest,
                               logs = [], States_after = states\<rparr>
                    else Inr (exchange_and_commit sp stm states code state))))"

subsection \<open>The watch and the retry loop\<close>

text \<open>
  A watch event is an error event with \<^verbatim>\<open>e.Err\<close>, a delete event, or otherwise an
  event whose \<^verbatim>\<open>e.Value\<close> is unmarshalled: \<open>EventPut None\<close> is a value on which
  \<^verbatim>\<open>si.Unmarshal\<close> fails. \<^verbatim>\<open>WatchOne\<close> either fails or gives a watcher: the events
  its channel delivers, after which the channel is closed or stays silent, so that
  \<^verbatim>\<open>range watcher.Watch()\<close> blocks for good.
\<close>

datatype event = EventPut "SessionInfo option" | EventDelete | EventError string

datatype chan_end = ChanClosed | ChanBlocks

datatype watcher = WatchOneErr string | Watcher "event list" chan_end

text \<open>
  The loop of lines 199-221 over the events of one watcher. The third argument is the
  captured variable \<^verbatim>\<open>accessToken\<close>. The result is \<open>None\<close> when the loop never
  returns, and otherwise the error returned (\<open>None\<close> for \<^verbatim>\<open>nil\<close>) with
  \<^verbatim>\<open>accessToken\<close>.
\<close>

fun watch_events :: "event list \<Rightarrow> chan_end \<Rightarrow> string \<Rightarrow> (error option \<times> string) option" where
  "watch_events [] ChanClosed accessToken = Some (None, accessToken)"
| "watch_events [] ChanBlocks accessToken = None"
| "watch_events (EventError m # es) c accessToken = Some (Some (WatchEventErr m), accessToken)"
| "watch_events (EventDelete # es) c accessToken = Some (Some tokenDeleted, accessToken)"
| "watch_events (EventPut None # es) c accessToken = Some (Some UnmarshalErr, accessToken)"
| "watch_events (EventPut (Some si) # es) c accessToken =
     (if AccessToken si \<noteq> '''' then Some (None, AccessToken si)
      else if ConversionErr si then Some (Some authFailed, accessToken)
      else watch_events es c accessToken)"

text \<open>
  Modelled from the spec: \<^verbatim>\<open>backoff.RetryNotify\<close> and \<^verbatim>\<open>backoff.New60sBackOff\<close> of
  \<^verbatim>\<open>src/server/pkg/backoff\<close> are not among the sources. The spec's wrapper runs the
  operation repeatedly, bounded by an overall backoff policy capped at about 60 seconds
  of cumulative wait; it classifies an error as stop and return or as sleep and retry,
  and must not retry after a non-retryable classification even if budget remains; a
  transient error escapes only when the retry budget is exhausted. The budget is the
  number of retries the policy still grants: the operation runs; \<^verbatim>\<open>nil\<close> ends the loop;
  an error with no budget left is returned; otherwise the callback is consulted, and
  the loop either returns the callback's error or sleeps and runs the operation again.
\<close>

fun RetryNotify ::
  "('s \<Rightarrow> (error option \<times> 's) option) \<Rightarrow> nat \<Rightarrow> (error \<Rightarrow> error option) \<Rightarrow> 's
     \<Rightarrow> (error option \<times> 's) option" where
  "RetryNotify operation 0 notify s =
     (case operation s of
        None \<Rightarrow> None
      | Some (None, s') \<Rightarrow> Some (None, s')
      | Some (Some err, s') \<Rightarrow> Some (Some err, s'))"
| "RetryNotify operation (Suc budget) notify s =
     (case operation s of
        None \<Rightarrow> None
      | Some (None, s') \<Rightarrow> Some (None, s')
      | Some (Some err, s') \<Rightarrow>
          (case notify err of
             Some err' \<Rightarrow> Some (Some err', s')
           | None \<Rightarrow> RetryNotify operation budget notify s'))"

text \<open>
  The state of one call of \<^verbatim>\<open>OIDCStateToEmail\<close>: the captured \<^verbatim>\<open>accessToken\<close>, the
  number of calls of \<^verbatim>\<open>WatchOne\<close> made so far, and how many watchers were obtained and
  how many were closed (\<^verbatim>\<open>defer watcher.Close()\<close>).
\<close>

record waiter =
  accessToken :: string
  WatchOne_calls :: nat
  watchers_opened :: nat
  watchers_closed :: nat

text \<open>
  The function retried by \<^verbatim>\<open>backoff.RetryNotify\<close> (lines 189-222). The first argument
  says what the i-th call of \<^verbatim>\<open>WatchOne\<close> on the state token gives. A watcher whose
  loop never returns is never closed.
\<close>

definition operation :: "(nat \<Rightarrow> watcher) \<Rightarrow> waiter \<Rightarrow> (error option \<times> waiter) option" where
  "operation WatchOne w =
     (case WatchOne (WatchOne_calls w) of
        WatchOneErr m \<Rightarrow> Some (Some watchFailed, w\<lparr>WatchOne_calls := WatchOne_calls w + 1\<rparr>)
      | Watcher es c \<Rightarrow>
          (case watch_events es c (accessToken w) of
             None \<Rightarrow> None
           | Some (err, tok) \<Rightarrow>
               Some (err, w\<lparr>accessToken := tok,
                              WatchOne_calls := WatchOne_calls w + 1,
                              watchers_opened := watchers_opened w + 1,
                              watchers_closed := watchers_closed w + 1\<rparr>)))"

text \<open>The notify callback of lines 222-229; \<open>Some err\<close> stops the retries.\<close>

definition notify :: "error \<Rightarrow> error option" where
  "notify err =
     (if err = watchFailed \<or> err = tokenDeleted \<or> err = authFailed then Some err else None)"

subsection \<open>OIDCStateToEmail (lines 182-245)\<close>

text \<open>
  The result is \<open>None\<close> when the call never returns, and otherwise the pair
  \<^verbatim>\<open>(email, retErr)\<close>, the final state of the watch loop and the access tokens with
  which \<^verbatim>\<open>Provider.UserInfo\<close> was called. (The \<^verbatim>\<open>logrus\<close> lines of this function take
  no part in any property below and are left out.)
\<close>

record resolve_out =
  email :: string
  retErr :: "error option"
  waiter_end :: waiter
  UserInfo_calls :: "string list"

definition OIDCStateToEmail ::
  "InternalOIDCProvider \<Rightarrow> nat \<Rightarrow> (string \<Rightarrow> nat \<Rightarrow> watcher) \<Rightarrow> string \<Rightarrow> resolve_out option" where
  "OIDCStateToEmail sp budget WatchOne state =
     (case RetryNotify (operation (WatchOne state)) budget notify
             \<lparr>accessToken = '''', WatchOne_calls = 0, watchers_opened = 0, watchers_closed = 0\<rparr> of
        None \<Rightarrow> None
      | Some (Some err, w) \<Rightarrow>
          Some \<lparr>email = '''', retErr = Some err, waiter_end = w, UserInfo_calls = []\<rparr>
      | Some (None, w) \<Rightarrow>
          (case UserInfo sp (accessToken w) of
             Inl m \<Rightarrow>
               Some \<lparr>email = '''', retErr = Some (UserInfoErr m), waiter_end = w,
                      UserInfo_calls = [accessToken w]\<rparr>
           | Inr userInfo_Email \<Rightarrow>
               Some \<lparr>email = userInfo_Email, retErr = None, waiter_end = w,
                      UserInfo_calls = [accessToken w]\<rparr>))"



definition pending :: "SessionInfo \<Rightarrow> bool" where
  "pending si = (AccessToken si = '''' \<and> \<not> ConversionErr si)"

text \<open>An update event that carries a pending record: the loop goes on to the next event.\<close>

fun pending_update :: "event \<Rightarrow> bool" where
  "pending_update (EventPut (Some si)) = pending si"
| "pending_update e = False"

subsection \<open>Concrete sessions, providers and requests\<close>

text \<open>
  One login session with state token \<^verbatim>\<open>abc123\<close> and nonce \<^verbatim>\<open>n0\<close>, as
  \<^verbatim>\<open>GetOIDCLoginURL\<close> stores it (lines 164-168), and the same session after a failed
  and after a successful callback.
\<close>

definition session_pending :: SessionInfo where
  "session_pending = \<lparr>Nonce = ''n0'', AccessToken = '''', ConversionErr = False\<rparr>"


definition session_succeeded :: SessionInfo where
  "session_succeeded = \<lparr>Nonce = ''n0'', AccessToken = ''at-1'', ConversionErr = False\<rparr>"

definition states_pending :: States where
  "states_pending = Map.empty(''abc123'' \<mapsto> session_pending)"



text \<open>
  Four providers: one that exchanges every code for the access token \<^verbatim>\<open>at-1\<close> and an
  ID token with nonce \<^verbatim>\<open>n0\<close>; one that gives the access token \<^verbatim>\<open>at-2\<close> instead; one
  whose ID token carries another nonce; one that refuses every code.
\<close>

definition idp_ok :: InternalOIDCProvider where
  "idp_ok = \<lparr>Exchange = (\<lambda>code. Inr \<lparr>Token_AccessToken = ''at-1'', Token_id_token = Some ''raw''\<rparr>),
             Verify = (\<lambda>raw. Inr ''n0''),
             UserInfo = (\<lambda>tok. Inr ''user@example.com'')\<rparr>"

definition idp_ok2 :: InternalOIDCProvider where
  "idp_ok2 = \<lparr>Exchange = (\<lambda>code. Inr \<lparr>Token_AccessToken = ''at-2'', Token_id_token = Some ''raw''\<rparr>),
              Verify = (\<lambda>raw. Inr ''n0''),
              UserInfo = (\<lambda>tok. Inr ''user@example.com'')\<rparr>"

definition idp_other_nonce :: InternalOIDCProvider where
  "idp_other_nonce =
     \<lparr>Exchange = (\<lambda>code. Inr \<lparr>Token_AccessToken = ''at-9'', Token_id_token = Some ''raw''\<rparr>),
      Verify = (\<lambda>raw. Inr ''n9''),
      UserInfo = (\<lambda>tok. Inr ''user@example.com'')\<rparr>"

definition idp_refuses :: InternalOIDCProvider where
  "idp_refuses = \<lparr>Exchange = (\<lambda>code. Inl ''invalid_grant''),
                  Verify = (\<lambda>raw. Inl ''unverified''),
                  UserInfo = (\<lambda>tok. Inl ''unauthorized'')\<rparr>"

text \<open>
  Four requests: \<^verbatim>\<open>?code=xyz&state=abc123\<close>, \<^verbatim>\<open>?code=uvw&state=abc123\<close>,
  \<^verbatim>\<open>?code=&state=abc123\<close> and \<^verbatim>\<open>?state=abc123\<close>.
\<close>

definition query_xyz :: Values where
  "query_xyz k = (if k = ''code'' then [''xyz''] else if k = ''state'' then [''abc123''] else [])"


definition query_empty_code :: Values where
  "query_empty_code k = (if k = ''code'' then [''''] else if k = ''state'' then [''abc123''] else [])"

definition query_no_code :: Values where
  "query_no_code k = (if k = ''state'' then [''abc123''] else [])"


definition watch_dropping_once :: "string \<Rightarrow> nat \<Rightarrow> watcher" where
  "watch_dropping_once key i =
     (if i = 0
      then Watcher [EventPut (Some session_pending), EventError ''connection reset''] ChanBlocks
      else Watcher [EventPut (Some session_succeeded)] ChanBlocks)"

definition watch_dropping :: "string \<Rightarrow> nat \<Rightarrow> watcher" where
  "watch_dropping key i =
     Watcher [EventPut (Some session_pending), EventError ''connection reset''] ChanBlocks"

definition watch_expiring :: "string \<Rightarrow> nat \<Rightarrow> watcher" where
  "watch_expiring key i = Watcher [EventPut (Some session_pending), EventDelete] ChanBlocks"

definition watch_closing :: "string \<Rightarrow> nat \<Rightarrow> watcher" where
  "watch_closing key i = Watcher [EventPut (Some session_pending)] ChanClosed"




definition watch_dropping_then_expiring :: "string \<Rightarrow> nat \<Rightarrow> watcher" where
  "watch_dropping_then_expiring key i =
     (if i = 0
      then Watcher [EventPut (Some session_pending), EventError ''connection reset''] ChanBlocks
      else Watcher [EventPut (Some session_pending), EventDelete] ChanBlocks)"

text \<open>The state in which \<^verbatim>\<open>OIDCStateToEmail\<close> enters the retry loop.\<close>

definition waiter_start :: waiter where
  "waiter_start =
     \<lparr>accessToken = '''', WatchOne_calls = 0, watchers_opened = 0, watchers_closed = 0\<rparr>"

section \<open>CryptoString: alphabet and length\<close>

text \<open>Below \<open>2 ^ 60\<close> bytes the machine arithmetic of \<^verbatim>\<open>EncodedLen\<close> does not
  wrap.\<close>

lemma sint_of_nat_small: "m < 2 ^ 63 \<Longrightarrow> sint (of_nat m :: 64 word) = int m"
  by (simp add: signed_of_nat signed_take_bit_int_eq_self)

lemma unat_of_nat_small: "m < 2 ^ 63 \<Longrightarrow> unat (of_nat m :: 64 word) = m"
  by (simp add: unsigned_of_nat take_bit_nat_eq_self)

lemma EncodedLen_of_nat:
  assumes "k < 2 ^ 60"
  shows "sint (EncodedLen (of_nat k)) = int (chars_for k)"
proof -
  have a: "(of_nat k :: 64 word) * 8 + 5 = of_nat (k * 8 + 5)" by simp
  have b: "k * 8 + 5 < 2 ^ 63" using assms by simp
  have c: "sint ((of_nat k :: 64 word) * 8 + 5) = int (k * 8 + 5)"
    unfolding a using b by (rule sint_of_nat_small)
  have d: "int (k * 8 + 5) sdiv 6 = int ((k * 8 + 5) div 6)"
    by (simp add: signed_divide_int_def zdiv_int)
  have e: "(k * 8 + 5) div 6 < 2 ^ 63" using b by simp
  have "sint (word_of_int (int ((k * 8 + 5) div 6)) :: 64 word) = int ((k * 8 + 5) div 6)"
    using sint_of_nat_small [OF e] by simp
  then show ?thesis
    unfolding EncodedLen_def c d chars_for_def .
qed


lemma chars_for_Suc: "chars_for k < chars_for (Suc k)"
  by (simp add: chars_for_def)

lemma chars_for_mono: "a \<le> b \<Longrightarrow> chars_for a \<le> chars_for b"
  by (simp add: chars_for_def div_le_mono)

lemma chars_for_ge: "k \<le> chars_for k"
  by (simp add: chars_for_def)

lemma chars_for_gt: "0 < k \<Longrightarrow> k < chars_for k"
  by (simp add: chars_for_def)

text \<open>
  For \<open>n\<close> below \<open>2 ^ 60\<close> the loop ends, at the first byte count whose encoding is
  longer than \<open>n\<close>.
\<close>

lemma numBytes_loop_from:
  assumes "sint n < 2 ^ 60"
  shows "k < 2 ^ 60 \<Longrightarrow>
         \<exists>K. k \<le> K \<and> K < 2 ^ 60 \<and> numBytes_loop n (of_nat k) = Some (of_nat K)
            \<and> sint n < int (chars_for K)
            \<and> (K = k \<or> int (chars_for (K - 1)) \<le> sint n)"
proof (induction "nat (sint n + 1 - int (chars_for k))" arbitrary: k rule: less_induct)
  case less
  note el = EncodedLen_of_nat [OF less.prems]
  show ?case
  proof (cases "int (chars_for k) \<le> sint n")
    case True
    have k1: "Suc k < 2 ^ 60"
    proof (cases "k = 0")
      case True
      then show ?thesis by simp
    next
      case False
      then have "k < chars_for k" by (simp add: chars_for_gt)
      with True assms have "int (Suc k) < 2 ^ 60" by linarith
      then have "int (Suc k) < int (2 ^ 60)" by simp
      then show ?thesis by (simp only: of_nat_less_iff)
    qed
    have dec: "nat (sint n + 1 - int (chars_for (Suc k))) < nat (sint n + 1 - int (chars_for k))"
      using True chars_for_Suc [of k] by linarith
    from less.hyps [OF dec k1] obtain K where
      K: "Suc k \<le> K" "K < 2 ^ 60" "numBytes_loop n (of_nat (Suc k)) = Some (of_nat K)"
         "sint n < int (chars_for K)" "K = Suc k \<or> int (chars_for (K - 1)) \<le> sint n"
      by blast
    have step: "numBytes_loop n (of_nat k) = numBytes_loop n (of_nat (Suc k))"
      using True el by (subst numBytes_loop.simps) (simp add: add.commute)
    have prev: "int (chars_for (K - 1)) \<le> sint n"
      using K(5) True by auto
    from K step prev show ?thesis
      by (intro exI [of _ K]) auto
  next
    case False
    then have "numBytes_loop n (of_nat k) = Some (of_nat k)"
      using el by (subst numBytes_loop.simps) simp
    with False less.prems show ?thesis
      by (intro exI [of _ k]) auto
  qed
qed

lemma numBytes_loop_bounded:
  assumes "sint n < 2 ^ 60"
  shows "\<exists>K. K < 2 ^ 60 \<and> numBytes_loop n 0 = Some (of_nat K)
            \<and> sint n < int (chars_for K)
            \<and> (\<forall>j. sint n < int (chars_for j) \<longrightarrow> K \<le> j)"
proof -
  from numBytes_loop_from [OF assms, of 0] obtain K where
    K: "K < 2 ^ 60" "numBytes_loop n 0 = Some (of_nat K)" "sint n < int (chars_for K)"
       "K = 0 \<or> int (chars_for (K - 1)) \<le> sint n"
    by auto
  have "K \<le> j" if j: "sint n < int (chars_for j)" for j
  proof (rule ccontr)
    assume "\<not> K \<le> j"
    then have "j \<le> K - 1" "K \<noteq> 0" by simp_all
    with K(4) chars_for_mono [of j "K - 1"] have "int (chars_for j) \<le> sint n" by linarith
    with j show False by simp
  qed
  with K show ?thesis by blast
qed

lemma numBytes_loop_eq:
  assumes "sint n < 2 ^ 60" and "sint n < int (chars_for K)"
    and "K = 0 \<or> int (chars_for (K - 1)) \<le> sint n"
  shows "numBytes_loop n 0 = Some (of_nat K)"
proof -
  from numBytes_loop_bounded [OF assms(1)] obtain K' where
    K': "numBytes_loop n 0 = Some (of_nat K')" "sint n < int (chars_for K')"
        "\<forall>j. sint n < int (chars_for j) \<longrightarrow> K' \<le> j"
    by blast
  from K'(3) assms(2) have le: "K' \<le> K" by blast
  have "K \<le> K'"
  proof (rule ccontr)
    assume "\<not> K \<le> K'"
    then have "K' \<le> K - 1" "K \<noteq> 0" by simp_all
    with assms(3) chars_for_mono [of K' "K - 1"] have "int (chars_for K') \<le> sint n"
      by linarith
    with K'(2) show False by simp
  qed
  with le K'(1) show ?thesis by simp
qed

text \<open>
  For the largest \<^verbatim>\<open>int\<close> the condition of the loop holds whatever \<^verbatim>\<open>EncodedLen\<close>
  gives: the loop does not end and \<^verbatim>\<open>CryptoString\<close> does not return.
\<close>

lemma numBytes_loop_Some_not_MaxInt64:
  assumes "numBytes_loop n k = Some r"
  shows "n \<noteq> 0x7FFFFFFFFFFFFFFF"
proof (rule numBytes_loop.raw_induct [where P = "\<lambda>n k r. n \<noteq> 0x7FFFFFFFFFFFFFFF", OF _ assms])
  fix f :: "64 word \<Rightarrow> 64 word \<Rightarrow> 64 word option" and n k r
  assume ih: "\<And>n' k' r'. f n' k' = Some r' \<Longrightarrow> n' \<noteq> 0x7FFFFFFFFFFFFFFF"
    and body: "(if sint (EncodedLen k) \<le> sint n then f n (k + 1) else Some k) = Some r"
  show "n \<noteq> 0x7FFFFFFFFFFFFFFF"
  proof
    assume n: "n = 0x7FFFFFFFFFFFFFFF"
    have "sint (EncodedLen k) < 2 ^ 63"
      using sint_lt [of "EncodedLen k"] by simp
    then have "sint (EncodedLen k) \<le> sint (0x7FFFFFFFFFFFFFFF :: 64 word)"
      by simp
    with body n have "f n (k + 1) = Some r" by simp
    from ih [OF this] n show False by simp
  qed
qed

lemma numBytes_loop_MaxInt64: "numBytes_loop 0x7FFFFFFFFFFFFFFF k = None"
  using numBytes_loop_Some_not_MaxInt64 [of "0x7FFFFFFFFFFFFFFF" k]
  by (cases "numBytes_loop 0x7FFFFFFFFFFFFFFF k") auto

lemma CryptoString_MaxInt64: "CryptoString maxAlloc rand_Read 0x7FFFFFFFFFFFFFFF = None"
  by (simp add: CryptoString_def numBytes_loop_MaxInt64)

lemma length_encodeURL: "length encodeURL = 64"
  by (simp add: encodeURL_def)

lemma enc6_in_encodeURL: "enc6 v \<in> set encodeURL"
  unfolding enc6_def by (rule nth_mem) (simp add: length_encodeURL)

lemma set_EncodeToString: "set (EncodeToString bs) \<subseteq> set encodeURL"
  by (induction bs rule: EncodeToString.induct) (simp_all add: Let_def enc6_in_encodeURL)

lemma length_EncodeToString: "length (EncodeToString bs) = chars_for (length bs)"
  by (induction bs rule: EncodeToString.induct) (simp_all add: Let_def chars_for_def)

lemma list_all_unreserved: "list_all url_unreserved encodeURL"
  by (simp add: encodeURL_def url_unreserved_def)

lemma encodeURL_unreserved: "c \<in> set encodeURL \<Longrightarrow> url_unreserved c"
  using list_all_unreserved by (simp add: list_all_iff)

lemma CryptoString_of_numBytes:
  assumes "numBytes_loop n 0 = Some (of_nat K)" and "K < 2 ^ 60" and "K \<le> maxAlloc"
  shows "CryptoString maxAlloc (Some src) n = Some (Inr (EncodeToString (map src [0..<K])))"
proof -
  have K63: "K < 2 ^ 63" using assms(2) by simp
  have "sint (of_nat K :: 64 word) = int K" using K63 by (rule sint_of_nat_small)
  moreover have "unat (of_nat K :: 64 word) = K" using K63 by (rule unat_of_nat_small)
  ultimately show ?thesis using assms(1,3) by (simp add: CryptoString_def)
qed

text \<open>
  C5, as the code has it. For every \<open>n\<close> (negative ones included) that is below the
  number of bytes the runtime can allocate, itself at most \<open>2 ^ 60\<close>, and every working
  entropy source, \<^verbatim>\<open>CryptoString(n)\<close> returns, and returns a string over the URL-safe
  base64 alphabet, none of whose characters needs percent-encoding; its length is the
  smallest encoded length strictly greater than \<open>n\<close>: it is longer than \<open>n\<close>, it is
  the encoded length of some number of bytes, and no number of bytes has an encoded
  length that is longer than \<open>n\<close> and shorter than the result.
\<close>

theorem CryptoString_length:
  assumes "sint n < int maxAlloc" and "maxAlloc \<le> 2 ^ 60"
  shows "\<exists>s. CryptoString maxAlloc (Some src) n = Some (Inr s)
       \<and> (\<forall>c \<in> set s. c \<in> set encodeURL \<and> url_unreserved c)
       \<and> sint n < int (length s)
       \<and> (\<exists>k. length s = chars_for k)
       \<and> (\<forall>k. sint n < int (chars_for k) \<longrightarrow> length s \<le> chars_for k)"
proof -
  have small: "sint n < 2 ^ 60"
  proof -
    have "int maxAlloc \<le> int (2 ^ 60)" using assms(2) by (simp only: of_nat_le_iff)
    with assms(1) show ?thesis by simp
  qed
  from numBytes_loop_bounded [OF small] obtain K where
    K: "K < 2 ^ 60" "numBytes_loop n 0 = Some (of_nat K)" "sint n < int (chars_for K)"
       "\<forall>j. sint n < int (chars_for j) \<longrightarrow> K \<le> j"
    by blast
  have alloc: "K \<le> maxAlloc"
  proof (cases "sint n < 0")
    case True
    then have "sint n < int (chars_for 0)" by (simp add: chars_for_def)
    with K(4) have "K \<le> 0" by blast
    then show ?thesis by simp
  next
    case False
    have "sint n < int (chars_for (nat (sint n) + 1))"
      by (simp add: chars_for_def)
    with K(4) have "K \<le> nat (sint n) + 1" by blast
    with assms(1) False show ?thesis by arith
  qed
  let ?s = "EncodeToString (map src [0..<K])"
  have eq: "CryptoString maxAlloc (Some src) n = Some (Inr ?s)"
    using K(2) K(1) alloc by (rule CryptoString_of_numBytes)
  have len: "length ?s = chars_for K"
    by (simp add: length_EncodeToString)
  have chars: "\<forall>c \<in> set ?s. c \<in> set encodeURL \<and> url_unreserved c"
    using set_EncodeToString encodeURL_unreserved by blast
  have gt: "sint n < int (length ?s)"
    unfolding len by (rule K(3))
  have least: "\<forall>k. sint n < int (chars_for k) \<longrightarrow> length ?s \<le> chars_for k"
    unfolding len using K(4) chars_for_mono by blast
  from eq chars gt len least show ?thesis by blast
qed

text \<open>
  C5, at the argument that \<^verbatim>\<open>GetOIDCLoginURL\<close> passes: 23 bytes encode to 31
  characters, which is longer than 30, and the result is no longer than that.
\<close>

theorem CryptoString_length_witness:
  "sint (30 :: 64 word) < int 64 \<and> (64 :: nat) \<le> 2 ^ 60
   \<and> sint (30 :: 64 word) < int (chars_for 23)
   \<and> (\<exists>s. CryptoString 64 (Some zero_source) 30 = Some (Inr s) \<and> length s \<le> chars_for 23
          \<and> sint (30 :: 64 word) < int (length s) \<and> list_all url_unreserved s)"
proof -
  have h1: "sint (30 :: 64 word) < int 64" by simp
  have h2: "(64 :: nat) \<le> 2 ^ 60" by simp
  have h3: "sint (30 :: 64 word) < int (chars_for 23)" by (simp add: chars_for_def)
  from CryptoString_length [OF h1 h2, of zero_source] h1 h2 h3 show ?thesis
    unfolding list_all_iff by blast
qed

text \<open>
  C5 as stated fails: the length is not the smallest encoded length that is at least
  \<open>n\<close>. \<^verbatim>\<open>CryptoString(30)\<close> is 31 characters long, although 22 bytes encode to
  exactly 30 characters; the loop goes on while \<^verbatim>\<open>n >= EncodedLen(numBytes)\<close>.
\<close>

theorem CryptoString_30_counterexample:
  "CryptoString 64 (Some zero_source) 30 = Some (Inr ''AAAAAAAAAAAAAAAAAAAAAAAAAAAAAAA'')
   \<and> length ''AAAAAAAAAAAAAAAAAAAAAAAAAAAAAAA'' = 31
   \<and> (30::int) \<le> int (chars_for 22)
   \<and> chars_for 22 < length ''AAAAAAAAAAAAAAAAAAAAAAAAAAAAAAA''"
proof -
  have "numBytes_loop 30 0 = Some (of_nat 23)"
    by (rule numBytes_loop_eq) (simp_all add: chars_for_def)
  then have "CryptoString 64 (Some zero_source) 30
               = Some (Inr (EncodeToString (map zero_source [0..<23])))"
    by (rule CryptoString_of_numBytes) simp_all
  then show ?thesis
    by (simp add: chars_for_def zero_source_def enc6_def encodeURL_def upt_rec)
qed

section \<open>The callback: the transaction applied twice\<close>

lemmas writer_defs = http_Error_def fmt_Fprintf_def logrus_Infof_def logrus_Errorf_def
  StatusBadRequest_def StatusUnauthorized_def StatusConflict_def StatusInternalServerError_def


lemma update_closure_Nonce:
  "Nonce (snd (snd (update_closure nonce tok conversionErr si))) = Nonce si"
  by (simp add: update_closure_def Let_def)




lemma internal_idp_refuses:
  "handleOIDCExchangeInternal [] idp_refuses code ''abc123'' =
     (('''', '''', Some (ExchangeErr ''invalid_grant'')),
      [Log Info MsgExchangeRequest [Str ''abc123''],
       Log Info MsgExchangeResult [Str ''abc123'', Str '''']])"
  by (simp add: handleOIDCExchangeInternal_def idp_refuses_def writer_defs)




section \<open>The callback: requests without a code or a state token\<close>

text \<open>
  A parameter that is present and empty is answered with status 400; nothing is logged
  and the collection is not touched.
\<close>

lemma handleOIDCExchange_empty_parameter:
  assumes "query ''code'' = code # cs" and "query ''state'' = state # ss"
    and "state = '''' \<or> code = ''''"
  shows "handleOIDCExchange (Some sp) stm states query =
           Inr \<lparr>responses = [Response 400 BodyInvalidRequest], logs = [],
                States_after = states\<rparr>"
  using assms by (auto simp: handleOIDCExchange_def writer_defs)

text \<open>
  C2. A request that does not carry the \<^verbatim>\<open>code\<close> parameter at all, such as
  \<^verbatim>\<open>?state=abc123\<close>, is not answered with status 400: line 288 indexes the first
  value of a parameter that has none, and the handler panics before the test of
  line 290 that was to reject the request.
\<close>

theorem handleOIDCExchange_missing_code_panics:
  "handleOIDCExchange (Some idp_ok) Commits states_pending query_no_code = Inl IndexOutOfRange"
  by (simp add: handleOIDCExchange_def query_no_code_def)

section \<open>The callback: the response and the log\<close>

lemma handleOIDCExchange_reaches_commit:
  assumes "query ''code'' = code # cs" and "query ''state'' = state # ss"
    and "state \<noteq> ''''" and "code \<noteq> ''''"
  shows "handleOIDCExchange (Some sp) stm states query =
           Inr (exchange_and_commit sp stm states code state)"
  using assms by (simp add: handleOIDCExchange_def)

lemma exchange_and_commit_unfold:
  assumes "handleOIDCExchangeInternal [] sp code state = ((nonce, tok, c0), sink1)"
    and "transactionalUpdate stm states state (update_closure nonce tok) c0
           = (etcdErr, conversionErr, states1)"
  shows "exchange_and_commit sp stm states code state =
          \<lparr>responses = [case conversionErr of
                           Some e \<Rightarrow> Response 401 (BodyAuthFailed state)
                         | None \<Rightarrow> (case etcdErr of
                                      Some e \<Rightarrow> Response 500 (BodyTemporaryError state)
                                    | None \<Rightarrow> Response 200 BodyLoggedIn)],
           logs = sink1
                  @ (case conversionErr of
                       Some e \<Rightarrow> [Log Error MsgCouldNotConvert [Str state, Err e]]
                     | None \<Rightarrow> [])
                  @ (case etcdErr of
                       Some e \<Rightarrow> [Log Error MsgErrorStoring [Str state, Err e]]
                     | None \<Rightarrow> []),
           States_after = states1\<rparr>"
  using assms
  by (simp add: exchange_and_commit_def Let_def writer_defs split: option.splits)



lemma fails_idp_refuses:
  "transactionalUpdate (FailsBeforeRead ''etcd unavailable'') states_pending ''abc123''
     (update_closure '''' '''') (Some (ExchangeErr ''invalid_grant''))
     = (Some (EtcdErr ''etcd unavailable''), Some (ExchangeErr ''invalid_grant''),
        states_pending)"
  by (simp add: transactionalUpdate_def)

lemma internal_idp_ok2:
  "handleOIDCExchangeInternal [] idp_ok2 code ''abc123'' =
     ((''n0'', ''at-2'', None),
      [Log Info MsgExchangeRequest [Str ''abc123''],
       Log Info MsgExchangeResult [Str ''abc123'', Str ''n0'']])"
  by (simp add: handleOIDCExchangeInternal_def idp_ok2_def writer_defs)

text \<open>
  C6. A callback request that reaches the exchange (a provider is configured, and the
  code and the state token are present and not empty) is answered exactly once, and the
  one response follows from what the provider and the store do. It is the generic
  authorization failure with status 401 when the exchange fails, when the token carries
  no ID token, when the ID token does not verify, or when the transaction reads the
  record and the nonce of the ID token differs from the stored nonce. Otherwise, when
  the store fails (before the read, at the commit, or because the token has no record)
  it is the generic temporary error with status 500; and when the exchange succeeds,
  the nonces agree and the transaction commits, it is the success message.
\<close>

theorem handleOIDCExchange_one_response:
  assumes "query ''code'' = code # cs" and "query ''state'' = state # ss"
    and "state \<noteq> ''''" and "code \<noteq> ''''"
  shows "\<exists>out. handleOIDCExchange (Some sp) stm states query = Inr out
           \<and> length (responses out) = 1
           \<and> responses out =
               [case Exchange sp code of
                  Inl m \<Rightarrow> Response 401 (BodyAuthFailed state)
                | Inr t \<Rightarrow>
                    (case Token_id_token t of
                       None \<Rightarrow> Response 401 (BodyAuthFailed state)
                     | Some raw \<Rightarrow>
                         (case Verify sp raw of
                            Inl m \<Rightarrow> Response 401 (BodyAuthFailed state)
                          | Inr nonce \<Rightarrow>
                              (case stm of
                                 FailsBeforeRead m \<Rightarrow> Response 500 (BodyTemporaryError state)
                               | FailsAtCommit m \<Rightarrow>
                                   (case states state of
                                      None \<Rightarrow> Response 500 (BodyTemporaryError state)
                                    | Some si \<Rightarrow>
                                        if nonce \<noteq> Nonce si
                                        then Response 401 (BodyAuthFailed state)
                                        else Response 500 (BodyTemporaryError state))
                               | Commits \<Rightarrow>
                                   (case states state of
                                      None \<Rightarrow> Response 500 (BodyTemporaryError state)
                                    | Some si \<Rightarrow>
                                        if nonce \<noteq> Nonce si
                                        then Response 401 (BodyAuthFailed state)
                                        else Response 200 BodyLoggedIn))))]"
proof -
  have h: "handleOIDCExchange (Some sp) stm states query =
             Inr (exchange_and_commit sp stm states code state)"
    using assms by (intro handleOIDCExchange_reaches_commit) auto
  show ?thesis
    unfolding h
    by (cases stm; cases "states state")
       (simp_all add: exchange_and_commit_def handleOIDCExchangeInternal_def
          transactionalUpdate_def update_closure_def Let_def writer_defs
          split: sum.splits option.splits)
qed

text \<open>C6, on the request \<^verbatim>\<open>?code=xyz&state=abc123\<close> for the pending session: success
  with the provider that answers with the session's nonce; 401 with a provider whose ID
  token carries another nonce and with a provider that refuses the code; 500 when the
  store fails at the commit.\<close>

theorem handleOIDCExchange_one_response_witness:
  "query_xyz ''code'' = ''xyz'' # [] \<and> query_xyz ''state'' = ''abc123'' # []
   \<and> ''abc123'' \<noteq> '''' \<and> ''xyz'' \<noteq> ''''
   \<and> (\<exists>out. handleOIDCExchange (Some idp_ok) Commits states_pending query_xyz = Inr out
          \<and> responses out = [Response 200 BodyLoggedIn])
   \<and> (\<exists>out. handleOIDCExchange (Some idp_other_nonce) Commits states_pending query_xyz = Inr out
          \<and> responses out = [Response 401 (BodyAuthFailed ''abc123'')])
   \<and> (\<exists>out. handleOIDCExchange (Some idp_refuses) Commits states_pending query_xyz = Inr out
          \<and> responses out = [Response 401 (BodyAuthFailed ''abc123'')])
   \<and> (\<exists>out. handleOIDCExchange (Some idp_ok) (FailsAtCommit ''etcd unavailable'')
                 states_pending query_xyz = Inr out
          \<and> responses out = [Response 500 (BodyTemporaryError ''abc123'')])"
proof -
  have q: "query_xyz ''code'' = ''xyz'' # []" "query_xyz ''state'' = ''abc123'' # []"
    by (simp_all add: query_xyz_def)
  have ne: "''abc123'' \<noteq> ''''" "''xyz'' \<noteq> ''''" by simp_all
  note th = handleOIDCExchange_one_response [OF q ne]
  have a: "\<exists>out. handleOIDCExchange (Some idp_ok) Commits states_pending query_xyz = Inr out
          \<and> responses out = [Response 200 BodyLoggedIn]"
    using th [of idp_ok Commits states_pending]
    by (auto simp: idp_ok_def states_pending_def session_pending_def)
  have b: "\<exists>out. handleOIDCExchange (Some idp_other_nonce) Commits states_pending query_xyz = Inr out
          \<and> responses out = [Response 401 (BodyAuthFailed ''abc123'')]"
    using th [of idp_other_nonce Commits states_pending]
    by (auto simp: idp_other_nonce_def states_pending_def session_pending_def)
  have c: "\<exists>out. handleOIDCExchange (Some idp_refuses) Commits states_pending query_xyz = Inr out
          \<and> responses out = [Response 401 (BodyAuthFailed ''abc123'')]"
    using th [of idp_refuses Commits states_pending]
    by (auto simp: idp_refuses_def)
  have d: "\<exists>out. handleOIDCExchange (Some idp_ok) (FailsAtCommit ''etcd unavailable'')
                 states_pending query_xyz = Inr out
          \<and> responses out = [Response 500 (BodyTemporaryError ''abc123'')]"
    using th [of idp_ok "FailsAtCommit ''etcd unavailable''" states_pending]
    by (auto simp: idp_ok_def states_pending_def session_pending_def)
  from q ne a b c d show ?thesis by (intro conjI)
qed

text \<open>
  C9. When both the conversion error and the store error are set after the
  transaction, the response is the generic authorization failure with status 401, not
  the temporary error, and the log receives both errors, each on a line of its own,
  after the two lines of the exchange.
\<close>

theorem handleOIDCExchange_both_errors:
  assumes "query ''code'' = code # cs" and "query ''state'' = state # ss"
    and "state \<noteq> ''''" and "code \<noteq> ''''"
    and "handleOIDCExchangeInternal [] sp code state = ((nonce, tok, c0), sink1)"
    and "transactionalUpdate stm states state (update_closure nonce tok) c0
           = (Some etcdErr, Some conversionErr, states1)"
  shows "handleOIDCExchange (Some sp) stm states query =
           Inr \<lparr>responses = [Response 401 (BodyAuthFailed state)],
                logs = sink1 @ [Log Error MsgCouldNotConvert [Str state, Err conversionErr],
                                Log Error MsgErrorStoring [Str state, Err etcdErr]],
                States_after = states1\<rparr>"
  using handleOIDCExchange_reaches_commit [OF assms(1-4)]
    exchange_and_commit_unfold [OF assms(5,6)]
  by simp

text \<open>C9, with a provider that refuses the code and a store that is unavailable.\<close>

theorem handleOIDCExchange_both_errors_witness:
  "query_xyz ''code'' = ''xyz'' # [] \<and> query_xyz ''state'' = ''abc123'' # []
   \<and> ''abc123'' \<noteq> '''' \<and> ''xyz'' \<noteq> ''''
   \<and> handleOIDCExchange (Some idp_refuses) (FailsBeforeRead ''etcd unavailable'')
         states_pending query_xyz =
       Inr \<lparr>responses = [Response 401 (BodyAuthFailed ''abc123'')],
            logs = [Log Info MsgExchangeRequest [Str ''abc123''],
                    Log Info MsgExchangeResult [Str ''abc123'', Str ''''],
                    Log Error MsgCouldNotConvert
                      [Str ''abc123'', Err (ExchangeErr ''invalid_grant'')],
                    Log Error MsgErrorStoring
                      [Str ''abc123'', Err (EtcdErr ''etcd unavailable'')]],
            States_after = states_pending\<rparr>"
proof -
  have q: "query_xyz ''code'' = ''xyz'' # []" "query_xyz ''state'' = ''abc123'' # []"
    by (simp_all add: query_xyz_def)
  have ne: "''abc123'' \<noteq> ''''" "''xyz'' \<noteq> ''''" by simp_all
  from handleOIDCExchange_both_errors [OF q ne internal_idp_refuses fails_idp_refuses] q ne
  show ?thesis by simp
qed






section \<open>The waiter\<close>

lemma watch_events_pending_prefix:
  "list_all pending_update ps \<Longrightarrow> watch_events (ps @ es) c a = watch_events es c a"
proof (induction ps)
  case Nil
  show ?case by simp
next
  case (Cons p ps)
  then show ?case
    by (cases p rule: pending_update.cases) (simp_all add: pending_def)
qed

lemma RetryNotify_stop:
  assumes "f s = Some (Some err, s')" and "g err = Some err"
  shows "RetryNotify f budget g s = Some (Some err, s')"
  using assms by (cases budget) simp_all

lemma RetryNotify_retry:
  assumes "f s = Some (Some err, s')" and "g err = None"
  shows "RetryNotify f (Suc budget) g s = RetryNotify f budget g s'"
  using assms by simp

lemma RetryNotify_exhausted:
  assumes "f s = Some (Some err, s')"
  shows "RetryNotify f 0 g s = Some (Some err, s')"
  using assms by simp

lemma RetryNotify_nil:
  assumes "f s = Some (None, s')"
  shows "RetryNotify f budget g s = Some (None, s')"
  using assms by (cases budget) simp_all

lemma operation_Watcher:
  assumes "W (WatchOne_calls w) = Watcher (ps @ es) c" and "list_all pending_update ps"
    and "watch_events es c (accessToken w) = Some (err, tok)"
  shows "operation W w =
           Some (err, w\<lparr>accessToken := tok,
                        WatchOne_calls := WatchOne_calls w + 1,
                        watchers_opened := watchers_opened w + 1,
                        watchers_closed := watchers_closed w + 1\<rparr>)"
  using assms by (simp add: operation_def watch_events_pending_prefix)


lemma OIDCStateToEmail_error:
  assumes "RetryNotify (operation (W state)) budget notify waiter_start = Some (Some err, w)"
  shows "OIDCStateToEmail sp budget W state =
           Some \<lparr>email = '''', retErr = Some err, waiter_end = w, UserInfo_calls = []\<rparr>"
  using assms by (simp add: OIDCStateToEmail_def waiter_start_def)

lemma OIDCStateToEmail_nil:
  assumes "RetryNotify (operation (W state)) budget notify waiter_start = Some (None, w)"
  shows "OIDCStateToEmail sp budget W state =
           Some \<lparr>email = (case UserInfo sp (accessToken w) of Inl m \<Rightarrow> '''' | Inr e \<Rightarrow> e),
                 retErr = (case UserInfo sp (accessToken w) of
                             Inl m \<Rightarrow> Some (UserInfoErr m) | Inr e \<Rightarrow> None),
                 waiter_end = w, UserInfo_calls = [accessToken w]\<rparr>"
  using assms by (simp add: OIDCStateToEmail_def waiter_start_def split: sum.splits)

text \<open>
  Attempts that end with an error the retry callback lets pass are retried one after
  the other, as long as the budget lasts.
\<close>

lemma RetryNotify_retried_attempts:
  assumes "\<forall>j<i. \<exists>es c err. W (WatchOne_calls w + j) = Watcher es c
                     \<and> watch_events es c (accessToken w) = Some (Some err, accessToken w)
                     \<and> notify err = None"
    and "i \<le> budget"
  shows "RetryNotify (operation W) budget notify w =
         RetryNotify (operation W) (budget - i) notify
           (w\<lparr>WatchOne_calls := WatchOne_calls w + i,
              watchers_opened := watchers_opened w + i,
              watchers_closed := watchers_closed w + i\<rparr>)"
  using assms
proof (induction i arbitrary: w budget)
  case 0
  show ?case by simp
next
  case (Suc i)
  from Suc.prems(1) obtain es c err where
    first: "W (WatchOne_calls w) = Watcher es c"
      "watch_events es c (accessToken w) = Some (Some err, accessToken w)"
      "notify err = None"
    by fastforce
  let ?w1 = "w\<lparr>WatchOne_calls := WatchOne_calls w + 1,
               watchers_opened := watchers_opened w + 1,
               watchers_closed := watchers_closed w + 1\<rparr>"
  have op: "operation W w = Some (Some err, ?w1)"
    using first(1,2) by (simp add: operation_def)
  from Suc.prems(2) obtain b where b: "budget = Suc b" "i \<le> b"
    by (cases budget) auto
  have step: "RetryNotify (operation W) budget notify w = RetryNotify (operation W) b notify ?w1"
    unfolding b(1) using op first(3) by (rule RetryNotify_retry)
  have rest: "\<forall>j<i. \<exists>es c err. W (WatchOne_calls ?w1 + j) = Watcher es c
                     \<and> watch_events es c (accessToken ?w1) = Some (Some err, accessToken ?w1)
                     \<and> notify err = None"
  proof (intro allI impI)
    fix j assume "j < i"
    then have "Suc j < Suc i" by simp
    with Suc.prems(1) show "\<exists>es c err. W (WatchOne_calls ?w1 + j) = Watcher es c
                     \<and> watch_events es c (accessToken ?w1) = Some (Some err, accessToken ?w1)
                     \<and> notify err = None"
      by fastforce
  qed
  from Suc.IH [OF rest b(2)] step b(1) show ?case by simp
qed

text \<open>
  C7. Take any execution in which a watcher delivers a delete event while the record
  is still pending: the watcher is the one of attempt \<open>i\<close>, every event before the
  delete event is an update that carries a pending record, and the execution reaches
  that attempt, that is, each earlier attempt ended with an error that the retry
  callback lets pass and the budget grants \<open>i\<close> retries. Then
  \<^verbatim>\<open>OIDCStateToEmail\<close> returns, and returns \<^verbatim>\<open>tokenDeleted\<close>, however much budget is
  left: the retry callback hands the error back, \<^verbatim>\<open>WatchOne\<close> is not called again,
  every watcher has been closed and \<^verbatim>\<open>UserInfo\<close> is not called.
\<close>

theorem OIDCStateToEmail_delete:
  assumes "\<forall>j<i. \<exists>es c err. W state j = Watcher es c
                     \<and> watch_events es c '''' = Some (Some err, '''')
                     \<and> notify err = None"
    and "i \<le> budget"
    and "W state i = Watcher (ps @ EventDelete # rest) c" and "list_all pending_update ps"
  shows "OIDCStateToEmail sp budget W state =
           Some \<lparr>email = '''', retErr = Some tokenDeleted,
                 waiter_end = \<lparr>accessToken = '''', WatchOne_calls = i + 1,
                                watchers_opened = i + 1, watchers_closed = i + 1\<rparr>,
                 UserInfo_calls = []\<rparr>"
proof -
  let ?wi = "\<lparr>accessToken = '''', WatchOne_calls = i, watchers_opened = i,
               watchers_closed = i\<rparr>"
  have pre: "\<forall>j<i. \<exists>es c err. W state (WatchOne_calls waiter_start + j) = Watcher es c
                     \<and> watch_events es c (accessToken waiter_start)
                         = Some (Some err, accessToken waiter_start)
                     \<and> notify err = None"
    using assms(1) by (simp add: waiter_start_def)
  have skip: "RetryNotify (operation (W state)) budget notify waiter_start =
              RetryNotify (operation (W state)) (budget - i) notify ?wi"
    using RetryNotify_retried_attempts [where W = "W state" and w = waiter_start, OF pre assms(2)]
    by (simp add: waiter_start_def)
  have wi: "W state (WatchOne_calls ?wi) = Watcher (ps @ EventDelete # rest) c"
    using assms(3) by simp
  have ev: "watch_events (EventDelete # rest) c (accessToken ?wi) = Some (Some tokenDeleted, '''')"
    by simp
  have "operation (W state) ?wi =
          Some (Some tokenDeleted,
                \<lparr>accessToken = '''', WatchOne_calls = i + 1, watchers_opened = i + 1,
                  watchers_closed = i + 1\<rparr>)"
    using operation_Watcher [where W = "W state" and w = ?wi and es = "EventDelete # rest",
        OF wi assms(4) ev]
    by simp
  then have "RetryNotify (operation (W state)) (budget - i) notify ?wi =
          Some (Some tokenDeleted,
                \<lparr>accessToken = '''', WatchOne_calls = i + 1, watchers_opened = i + 1,
                  watchers_closed = i + 1\<rparr>)"
    by (rule RetryNotify_stop) (simp add: notify_def)
  with skip have "RetryNotify (operation (W state)) budget notify waiter_start =
          Some (Some tokenDeleted,
                \<lparr>accessToken = '''', WatchOne_calls = i + 1, watchers_opened = i + 1,
                  watchers_closed = i + 1\<rparr>)"
    by simp
  then show ?thesis by (rule OIDCStateToEmail_error)
qed

text \<open>C7, on a watch whose first watcher drops and whose second delivers the pending
  record and then the delete event, with seven retries; and on a watch whose first
  watcher delivers the delete event, with no retry at all.\<close>

theorem OIDCStateToEmail_delete_witness:
  "watch_dropping_then_expiring ''abc123'' 0 =
        Watcher [EventPut (Some session_pending), EventError ''connection reset''] ChanBlocks
   \<and> watch_events [EventPut (Some session_pending), EventError ''connection reset'']
         ChanBlocks '''' = Some (Some (WatchEventErr ''connection reset''), '''')
   \<and> notify (WatchEventErr ''connection reset'') = None
   \<and> (1::nat) \<le> 7
   \<and> watch_dropping_then_expiring ''abc123'' 1 =
        Watcher ([EventPut (Some session_pending)] @ EventDelete # []) ChanBlocks
   \<and> list_all pending_update [EventPut (Some session_pending)]
   \<and> OIDCStateToEmail idp_ok 7 watch_dropping_then_expiring ''abc123'' =
           Some \<lparr>email = '''', retErr = Some tokenDeleted,
                 waiter_end = \<lparr>accessToken = '''', WatchOne_calls = 2, watchers_opened = 2,
                                watchers_closed = 2\<rparr>,
                 UserInfo_calls = []\<rparr>
   \<and> OIDCStateToEmail idp_ok 0 watch_expiring ''abc123'' =
           Some \<lparr>email = '''', retErr = Some tokenDeleted,
                 waiter_end = \<lparr>accessToken = '''', WatchOne_calls = 1, watchers_opened = 1,
                                watchers_closed = 1\<rparr>,
                 UserInfo_calls = []\<rparr>"
proof -
  have p1: "\<forall>j<1. \<exists>es c err. watch_dropping_then_expiring ''abc123'' j = Watcher es c
                     \<and> watch_events es c '''' = Some (Some err, '''')
                     \<and> notify err = None"
    by (simp add: watch_dropping_then_expiring_def session_pending_def notify_def)
  have b1: "(1::nat) \<le> 7" by simp
  have a1: "watch_dropping_then_expiring ''abc123'' 1 =
        Watcher ([EventPut (Some session_pending)] @ EventDelete # []) ChanBlocks"
    by (simp add: watch_dropping_then_expiring_def)
  have l: "list_all pending_update [EventPut (Some session_pending)]"
    by (simp add: pending_def session_pending_def)
  have p0: "\<forall>j<0. \<exists>es c err. watch_expiring ''abc123'' j = Watcher es c
                     \<and> watch_events es c '''' = Some (Some err, '''')
                     \<and> notify err = None"
    by simp
  have b0: "(0::nat) \<le> 0" by simp
  have a0: "watch_expiring ''abc123'' 0 =
        Watcher ([EventPut (Some session_pending)] @ EventDelete # []) ChanBlocks"
    by (simp add: watch_expiring_def)
  note t1 = OIDCStateToEmail_delete [where W = watch_dropping_then_expiring
      and state = "''abc123''" and i = 1 and budget = 7
      and ps = "[EventPut (Some session_pending)]" and rest = "[]" and sp = idp_ok,
      OF p1 b1 a1 l]
  note t0 = OIDCStateToEmail_delete [where W = watch_expiring
      and state = "''abc123''" and i = 0 and budget = 0
      and ps = "[EventPut (Some session_pending)]" and rest = "[]" and sp = idp_ok,
      OF p0 b0 a0 l]
  have d0: "watch_dropping_then_expiring ''abc123'' 0 =
        Watcher [EventPut (Some session_pending), EventError ''connection reset''] ChanBlocks"
    by (simp add: watch_dropping_then_expiring_def)
  have d1: "watch_events [EventPut (Some session_pending), EventError ''connection reset'']
         ChanBlocks '''' = Some (Some (WatchEventErr ''connection reset''), '''')"
    by (simp add: session_pending_def)
  have d2: "notify (WatchEventErr ''connection reset'') = None"
    by (simp add: notify_def)
  from d0 d1 d2 b1 a1 l t1 t0 show ?thesis by simp
qed

text \<open>
  C10. When the channel of the first watcher closes after delivering nothing but
  updates that carry a pending record (or nothing at all), the retried function returns
  \<^verbatim>\<open>nil\<close> with \<^verbatim>\<open>accessToken\<close> still empty: \<^verbatim>\<open>OIDCStateToEmail\<close> does not
  watch again and calls \<^verbatim>\<open>UserInfo\<close> with the empty access token, whose answer it
  returns.
\<close>

theorem OIDCStateToEmail_channel_closed:
  assumes "W state 0 = Watcher ps ChanClosed" and "list_all pending_update ps"
  shows "OIDCStateToEmail sp budget W state =
           Some \<lparr>email = (case UserInfo sp '''' of Inl m \<Rightarrow> '''' | Inr e \<Rightarrow> e),
                 retErr = (case UserInfo sp '''' of Inl m \<Rightarrow> Some (UserInfoErr m) | Inr e \<Rightarrow> None),
                 waiter_end = \<lparr>accessToken = '''', WatchOne_calls = 1, watchers_opened = 1,
                                watchers_closed = 1\<rparr>,
                 UserInfo_calls = ['''']\<rparr>"
proof -
  have w0: "W state (WatchOne_calls waiter_start) = Watcher (ps @ []) ChanClosed"
    using assms(1) by (simp add: waiter_start_def)
  have ev: "watch_events [] ChanClosed (accessToken waiter_start) = Some (None, '''')"
    by (simp add: waiter_start_def)
  have "operation (W state) waiter_start =
          Some (None,
                \<lparr>accessToken = '''', WatchOne_calls = 1, watchers_opened = 1, watchers_closed = 1\<rparr>)"
    using operation_Watcher [where W = "W state" and w = waiter_start and es = "[]", OF w0 assms(2) ev]
    by (simp add: waiter_start_def)
  then have "RetryNotify (operation (W state)) budget notify waiter_start =
          Some (None,
                \<lparr>accessToken = '''', WatchOne_calls = 1, watchers_opened = 1, watchers_closed = 1\<rparr>)"
    by (rule RetryNotify_nil)
  from OIDCStateToEmail_nil [where W = W and state = state, OF this] show ?thesis by simp
qed

text \<open>C10, on a watch whose channel closes after the pending record: the caller gets
  whatever the provider answers to an empty bearer token.\<close>

theorem OIDCStateToEmail_channel_closed_witness:
  "watch_closing ''abc123'' 0 = Watcher [EventPut (Some session_pending)] ChanClosed
   \<and> list_all pending_update [EventPut (Some session_pending)]
   \<and> OIDCStateToEmail idp_ok 7 watch_closing ''abc123'' =
           Some \<lparr>email = ''user@example.com'', retErr = None,
                 waiter_end = \<lparr>accessToken = '''', WatchOne_calls = 1, watchers_opened = 1,
                                watchers_closed = 1\<rparr>,
                 UserInfo_calls = ['''']\<rparr>"
proof -
  have a: "watch_closing ''abc123'' 0 = Watcher [EventPut (Some session_pending)] ChanClosed"
    by (simp add: watch_closing_def)
  have b: "list_all pending_update [EventPut (Some session_pending)]"
    by (simp add: pending_def session_pending_def)
  from a b OIDCStateToEmail_channel_closed [where W = watch_closing and state = "''abc123''"
      and sp = idp_ok and budget = 7, OF a b] show ?thesis
    by (simp add: idp_ok_def)
qed



text \<open>Two runs of the whole function: a watch that drops once and then delivers the
  succeeded record, and a watch that drops on every attempt, with one retry.\<close>

lemma resolve_dropping_once:
  "OIDCStateToEmail idp_ok 1 watch_dropping_once ''abc123'' =
     Some \<lparr>email = ''user@example.com'', retErr = None,
           waiter_end = \<lparr>accessToken = ''at-1'', WatchOne_calls = 2, watchers_opened = 2,
                          watchers_closed = 2\<rparr>,
           UserInfo_calls = [''at-1'']\<rparr>"
  by (simp add: OIDCStateToEmail_def operation_def watch_dropping_once_def notify_def
      session_pending_def session_succeeded_def idp_ok_def)

lemma resolve_dropping:
  "OIDCStateToEmail idp_ok 1 watch_dropping ''abc123'' =
     Some \<lparr>email = '''', retErr = Some (WatchEventErr ''connection reset''),
           waiter_end = \<lparr>accessToken = '''', WatchOne_calls = 2, watchers_opened = 2,
                          watchers_closed = 2\<rparr>,
           UserInfo_calls = []\<rparr>"
  by (simp add: OIDCStateToEmail_def operation_def watch_dropping_def notify_def
      session_pending_def idp_ok_def)


section \<open>Nonce mismatch\<close>



lemma OIDCStateToEmail_token_record:
  assumes "W state 0 = Watcher (ps @ EventPut (Some si) # rest) c"
    and "list_all pending_update ps" and "AccessToken si \<noteq> ''''"
  shows "OIDCStateToEmail sp budget W state =
           Some \<lparr>email = (case UserInfo sp (AccessToken si) of Inl m \<Rightarrow> '''' | Inr e \<Rightarrow> e),
                 retErr = (case UserInfo sp (AccessToken si) of
                             Inl m \<Rightarrow> Some (UserInfoErr m) | Inr e \<Rightarrow> None),
                 waiter_end = \<lparr>accessToken = AccessToken si, WatchOne_calls = 1,
                                watchers_opened = 1, watchers_closed = 1\<rparr>,
                 UserInfo_calls = [AccessToken si]\<rparr>"
proof -
  have w0: "W state (WatchOne_calls waiter_start) = Watcher (ps @ EventPut (Some si) # rest) c"
    using assms(1) by (simp add: waiter_start_def)
  have ev: "watch_events (EventPut (Some si) # rest) c (accessToken waiter_start)
              = Some (None, AccessToken si)"
    using assms(3) by simp
  have "operation (W state) waiter_start =
          Some (None, \<lparr>accessToken = AccessToken si, WatchOne_calls = 1,
                        watchers_opened = 1, watchers_closed = 1\<rparr>)"
    using operation_Watcher [where W = "W state" and w = waiter_start
        and es = "EventPut (Some si) # rest", OF w0 assms(2) ev]
    by (simp add: waiter_start_def)
  then have "RetryNotify (operation (W state)) budget notify waiter_start =
          Some (None, \<lparr>accessToken = AccessToken si, WatchOne_calls = 1,
                        watchers_opened = 1, watchers_closed = 1\<rparr>)"
    by (rule RetryNotify_nil)
  from OIDCStateToEmail_nil [where W = W and state = state, OF this]
  show ?thesis by simp
qed





end
